theory Spec2Isabelle
  imports Main
begin

section \<open>The collaborators of \<open>app.py\<close>\<close>

text \<open>
  \<open>app.py\<close> is routing glue between two collaborators that live outside the file: the
  package registry (\<open>osc.API\<close>) and the template renderer (\<open>flask.render_template\<close>).
\<close>

subsection \<open>The package registry\<close>

text \<open>
  Modelled from the spec: the class \<open>osc.API\<close> is imported by \<open>app.py\<close> but not defined
  there. Its interface is \<open>load_packages() -> void\<close>, \<open>get_packages() -> sequence of
  Package\<close> and \<open>package_by_name(name) -> Package or absent\<close>. The registry is a Python
  object, so each method may read and write the object's state \<open>'r\<close>: a method takes the
  state and returns the state it leaves behind, next to its result. \<open>'p\<close> is the type of
  packages, opaque to this layer. \<open>package_truth p\<close> is the truth value \<open>bool(p)\<close> of a
  package the registry hands out: Python decides it by the class of the object. The
  methods are parameters of every definition below; they are taken to return, as the
  source has no \<open>try\<close> around them.
\<close>

record ('r, 'p) osc_api =
  API :: 'r
  load_packages :: "'r \<Rightarrow> 'r"
  get_packages :: "'r \<Rightarrow> 'p list \<times> 'r"
  package_by_name :: "string option \<Rightarrow> 'r \<Rightarrow> 'p option \<times> 'r"
  package_truth :: "'p \<Rightarrow> bool"

subsection \<open>Values, pages and the event trace\<close>

text \<open>
  The keyword arguments that the handlers pass to \<open>render_template\<close> are strings, the
  result of a lookup (a package or \<open>None\<close>), or the list of packages.
\<close>

datatype 'p pyvalue = NoneValue | Str string | Package 'p | Packages "'p list"

fun value_of :: "'p option \<Rightarrow> 'p pyvalue" where
  "value_of None = NoneValue"
| "value_of (Some p) = Package p"

text \<open>
  The renderer is external too. A call \<open>render_template(t, k1=v1, ...)\<close> is kept as the
  pair of its template identifier and its keyword arguments, in the order they are
  written: the HTML document is a function of these two.
\<close>

record 'p page =
  template :: string
  params :: "(string \<times> 'p pyvalue) list"

text \<open>Every call that leaves \<open>app.py\<close> is recorded, in the order it is made.\<close>

datatype 'p event =
    Construct
  | LoadPackages
  | GetPackages
  | PackageByName "string option"
  | RenderTemplate "'p page"

text \<open>
  The events a handler may cause: the two reads of the registry and the render call.
  Constructing and loading the registry belong to start-up.
\<close>

fun is_request_event :: "'p event \<Rightarrow> bool" where
  "is_request_event Construct = False"
| "is_request_event LoadPackages = False"
| "is_request_event GetPackages = True"
| "is_request_event (PackageByName name) = True"
| "is_request_event (RenderTemplate pg) = True"

text \<open>
  The state a handler runs in: the object bound to the module's global
  \<open>OpenShopChannel\<close>, and the trace of calls made so far.
\<close>

record ('r, 'p) world =
  OpenShopChannel :: 'r
  trace :: "'p event list"

definition call_load_packages :: "('r, 'p) osc_api \<Rightarrow> ('r, 'p) world \<Rightarrow> ('r, 'p) world" where
  "call_load_packages api w =
     w\<lparr>OpenShopChannel := load_packages api (OpenShopChannel w),
       trace := trace w @ [LoadPackages]\<rparr>"

definition call_get_packages ::
  "('r, 'p) osc_api \<Rightarrow> ('r, 'p) world \<Rightarrow> 'p list \<times> ('r, 'p) world" where
  "call_get_packages api w =
     (case get_packages api (OpenShopChannel w) of
        (ps, r) \<Rightarrow> (ps, w\<lparr>OpenShopChannel := r, trace := trace w @ [GetPackages]\<rparr>))"

definition call_package_by_name ::
  "('r, 'p) osc_api \<Rightarrow> string option \<Rightarrow> ('r, 'p) world \<Rightarrow> 'p option \<times> ('r, 'p) world" where
  "call_package_by_name api name w =
     (case package_by_name api name (OpenShopChannel w) of
        (res, r) \<Rightarrow> (res, w\<lparr>OpenShopChannel := r, trace := trace w @ [PackageByName name]\<rparr>))"

definition render_template ::
  "string \<Rightarrow> (string \<times> 'p pyvalue) list \<Rightarrow> ('r, 'p) world \<Rightarrow> 'p page \<times> ('r, 'p) world" where
  "render_template t kwargs w =
     (let pg = \<lparr>template = t, params = kwargs\<rparr>
      in (pg, w\<lparr>trace := trace w @ [RenderTemplate pg]\<rparr>))"

subsection \<open>The request\<close>

text \<open>
  A GET request, as far as the handlers read it: the path, and the query string parsed
  into \<open>request.args\<close>, a multi-dictionary that keeps the pairs in the order of the URL.
  \<open>request.args.get(key)\<close> is the value of the first pair with that key, and \<open>None\<close>
  when there is none (it never raises).
\<close>

record request =
  path :: string
  args :: "(string \<times> string) list"

fun args_get :: "(string \<times> string) list \<Rightarrow> string \<Rightarrow> string option" where
  "args_get [] key = None"
| "args_get ((k, v) # rest) key = (if k = key then Some v else args_get rest key)"

text \<open>
  \<open>"...{}...".format(x)\<close> puts \<open>str(x)\<close> in the place of the braces: the string itself
  when \<open>x\<close> is a string, and the four characters \<open>None\<close> when \<open>x\<close> is \<open>None\<close>.
\<close>

definition py_str :: "string option \<Rightarrow> string" where
  "py_str x = (case x of None \<Rightarrow> ''None'' | Some s \<Rightarrow> s)"

definition app_404_description :: "string option \<Rightarrow> string" where
  \<open>app_404_description x =
     ''The app "'' @ py_str x @ ''" (Internal Name) could not be found.''\<close>

text \<open>
  \<open>if package:\<close> tests the truth value of the lookup's result, not whether it is
  \<open>None\<close>. \<open>None\<close> is false; a package is as true as its class makes it, which the first
  argument tells.
\<close>

fun truthy :: "('p \<Rightarrow> bool) \<Rightarrow> 'p option \<Rightarrow> bool" where
  "truthy truth None = False"
| "truthy truth (Some p) = truth p"

section \<open>The handlers\<close>

text \<open>
  Each handler is a function of the registry's interface, the request and the state it
  starts in; it returns the page it rendered and the state it leaves. The handler of
  \<open>/\<close> is \<open>def welcome()\<close> in the source; \<open>welcome\<close> is a command of Isabelle, so
  the definition carries a suffix.
\<close>

definition welcome_view ::
  "('r, 'p) osc_api \<Rightarrow> request \<Rightarrow> ('r, 'p) world \<Rightarrow> 'p page \<times> ('r, 'p) world" where
  "welcome_view api req w = render_template ''welcome.html'' [] w"

definition home ::
  "('r, 'p) osc_api \<Rightarrow> request \<Rightarrow> ('r, 'p) world \<Rightarrow> 'p page \<times> ('r, 'p) world" where
  "home api req w =
     (case call_get_packages api w of
        (ps, w1) \<Rightarrow> render_template ''home.html'' [(''packages'', Packages ps)] w1)"

definition apps ::
  "('r, 'p) osc_api \<Rightarrow> request \<Rightarrow> ('r, 'p) world \<Rightarrow> 'p page \<times> ('r, 'p) world" where
  "apps api req w =
     (case call_get_packages api w of
        (ps, w1) \<Rightarrow> render_template ''list.html'' [(''packages'', Packages ps)] w1)"

definition patches ::
  "('r, 'p) osc_api \<Rightarrow> request \<Rightarrow> ('r, 'p) world \<Rightarrow> 'p page \<times> ('r, 'p) world" where
  "patches api req w =
     render_template ''warning.html''
       [(''code'', Str ''PATCH-WARN''),
        (''description'', Str ''Many patches could damage or brick your system. The Open Shop Channel is not responsbile for any damages to your Wii.'')]
       w"

definition application ::
  "('r, 'p) osc_api \<Rightarrow> request \<Rightarrow> ('r, 'p) world \<Rightarrow> 'p page \<times> ('r, 'p) world" where
  "application api req w =
     (case call_package_by_name api (args_get (args req) ''package'') w of
        (package, w1) \<Rightarrow>
          if truthy (package_truth api) package
          then render_template ''app.html'' [(''package'', value_of package)] w1
          else render_template ''error.html''
                 [(''code'', Str ''APP-404''),
                  (''description'', Str (app_404_description (args_get (args req) ''package'')))]
                 w1)"

subsection \<open>The handler of \<open>/app\<close> over a lookup that may raise\<close>

text \<open>
  A method of the registry can also raise instead of returning. Lines 30 to 38 have no
  \<open>try\<close>: an exception of \<open>package_by_name\<close> leaves the handler before anything is
  rendered, and a result is tested and rendered as above. The lookup is a parameter here,
  with the exception as the left summand of its result; \<open>returning\<close> is the lookup of a
  registry whose \<open>package_by_name\<close> returns.
\<close>

datatype py_exception = PyException string

definition application_exc ::
  "('p \<Rightarrow> bool) \<Rightarrow> (string option \<Rightarrow> 'r \<Rightarrow> (py_exception + 'p option) \<times> 'r) \<Rightarrow>
   request \<Rightarrow> ('r, 'p) world \<Rightarrow> (py_exception + 'p page) \<times> ('r, 'p) world" where
  "application_exc truth lookup req w =
     (case lookup (args_get (args req) ''package'') (OpenShopChannel w) of
        (result, r) \<Rightarrow>
          (let w1 = w\<lparr>OpenShopChannel := r,
                      trace := trace w @ [PackageByName (args_get (args req) ''package'')]\<rparr>
           in case result of
                Inl e \<Rightarrow> (Inl e, w1)
              | Inr package \<Rightarrow>
                  (case (if truthy truth package
                         then render_template ''app.html'' [(''package'', value_of package)] w1
                         else render_template ''error.html''
                                [(''code'', Str ''APP-404''),
                                 (''description'',
                                  Str (app_404_description (args_get (args req) ''package'')))]
                                w1) of
                     (pg, w2) \<Rightarrow> (Inr pg, w2))))"

definition returning ::
  "('r, 'p) osc_api \<Rightarrow> string option \<Rightarrow> 'r \<Rightarrow> (py_exception + 'p option) \<times> 'r" where
  "returning api name r = (case package_by_name api name r of (res, r1) \<Rightarrow> (Inr res, r1))"

subsection \<open>The document a page becomes\<close>



text \<open>
  The two error handlers. Both are written \<open>def page_not_found(e)\<close>; they are told apart
  here by the line of their \<open>def\<close>. The argument \<open>e\<close>, the HTTP error that fired, is the
  status code; neither body reads it.
\<close>

definition page_not_found_l43 :: "nat \<Rightarrow> ('r, 'p) world \<Rightarrow> 'p page \<times> ('r, 'p) world" where
  "page_not_found_l43 e w =
     render_template ''error.html''
       [(''code'', Str ''HTTP-404''),
        (''description'', Str ''Page could not be found. This is not where the shop is :('')]
       w"

definition page_not_found_l49 :: "nat \<Rightarrow> ('r, 'p) world \<Rightarrow> 'p page \<times> ('r, 'p) world" where
  "page_not_found_l49 e w =
     render_template ''error.html''
       [(''code'', Str ''HTTP-500''),
        (''description'', Str ''Something went wrong on the shop's server. Please report this event!'')]
       w"

section \<open>The module: start-up and registration\<close>

text \<open>
  Lines 4 and 5 run when the module is loaded: the registry object is constructed and
  bound to \<open>OpenShopChannel\<close>, then \<open>load_packages\<close> is called on it.
\<close>

definition startup :: "('r, 'p) osc_api \<Rightarrow> ('r, 'p) world" where
  "startup api =
     (let w0 = \<lparr>OpenShopChannel = API api, trace = [Construct]\<rparr>
      in call_load_packages api w0)"

text \<open>
  The function objects that the \<open>def\<close> statements of the module create: five views and
  two error handlers.
\<close>

datatype view_fn = Fn_welcome | Fn_home | Fn_apps | Fn_patches | Fn_application

datatype handler_fn = Fn_page_not_found_l43 | Fn_page_not_found_l49

datatype fn_obj = View view_fn | Handler handler_fn

fun call_view ::
  "('r, 'p) osc_api \<Rightarrow> view_fn \<Rightarrow> request \<Rightarrow> ('r, 'p) world \<Rightarrow> 'p page \<times> ('r, 'p) world" where
  "call_view api Fn_welcome = welcome_view api"
| "call_view api Fn_home = home api"
| "call_view api Fn_apps = apps api"
| "call_view api Fn_patches = patches api"
| "call_view api Fn_application = application api"

fun call_handler :: "handler_fn \<Rightarrow> nat \<Rightarrow> ('r, 'p) world \<Rightarrow> 'p page \<times> ('r, 'p) world" where
  "call_handler Fn_page_not_found_l43 = page_not_found_l43"
| "call_handler Fn_page_not_found_l49 = page_not_found_l49"

text \<open>
  Modelled from the spec: the framework object \<open>Flask(__name__)\<close> is not part of the
  repository. The decorator \<open>@app.route(rule)\<close> binds the rule to the function it
  decorates, and \<open>@app.errorhandler(code)\<close> binds the status code to the function it
  decorates; both store the function object itself, when the decorator runs.
\<close>

record flask_app =
  url_map :: "string \<rightharpoonup> view_fn"
  error_handler_spec :: "nat \<rightharpoonup> handler_fn"

definition Flask :: flask_app where
  "Flask = \<lparr>url_map = Map.empty, error_handler_spec = Map.empty\<rparr>"

definition route :: "string \<Rightarrow> view_fn \<Rightarrow> flask_app \<Rightarrow> flask_app" where
  "route rule f a = a\<lparr>url_map := (url_map a)(rule \<mapsto> f)\<rparr>"

definition errorhandler :: "nat \<Rightarrow> handler_fn \<Rightarrow> flask_app \<Rightarrow> flask_app" where
  "errorhandler code h a = a\<lparr>error_handler_spec := (error_handler_spec a)(code \<mapsto> h)\<rparr>"

text \<open>
  A decorated \<open>def\<close> does two things, in this order: the decorator registers the new
  function object with the application, and the function's name is bound to it in the
  module's namespace, replacing what the name was bound to before.
\<close>

record module_state =
  app :: flask_app
  globals :: "string \<rightharpoonup> fn_obj"

definition def_route :: "string \<Rightarrow> string \<Rightarrow> view_fn \<Rightarrow> module_state \<Rightarrow> module_state" where
  "def_route rule name f m =
     \<lparr>app = route rule f (app m), globals = (globals m)(name \<mapsto> View f)\<rparr>"

definition def_errorhandler ::
  "nat \<Rightarrow> string \<Rightarrow> handler_fn \<Rightarrow> module_state \<Rightarrow> module_state" where
  "def_errorhandler code name h m =
     \<lparr>app = errorhandler code h (app m), globals = (globals m)(name \<mapsto> Handler h)\<rparr>"

text \<open>Lines 7 to 51 of the module, in the order they run.\<close>

definition module_defs :: module_state where
  "module_defs =
     (let m0 = \<lparr>app = Flask, globals = Map.empty\<rparr>;
          m1 = def_route ''/'' ''welcome'' Fn_welcome m0;
          m2 = def_route ''/home'' ''home'' Fn_home m1;
          m3 = def_route ''/apps'' ''apps'' Fn_apps m2;
          m4 = def_route ''/patches'' ''patches'' Fn_patches m3;
          m5 = def_route ''/app'' ''application'' Fn_application m4;
          m6 = def_errorhandler 404 ''page_not_found'' Fn_page_not_found_l43 m5;
          m7 = def_errorhandler 500 ''page_not_found'' Fn_page_not_found_l49 m6
      in m7)"

section \<open>Serving requests\<close>

text \<open>
  Modelled from the spec: the framework's dispatch is not part of the repository. A
  request whose path has a rule runs the rule's view, and the string the view returns
  becomes a response with status 200; a request whose path has no rule runs the handler
  registered for 404, when there is one. The status line of an error response is the
  framework's business and is not modelled. The handler for 500 runs when a view raises;
  no view of this model raises, as the registry's methods are taken to return.
\<close>

record 'p response =
  status :: nat
  body :: "'p page"

definition make_response :: "'p page \<Rightarrow> 'p response" where
  "make_response pg = \<lparr>status = 200, body = pg\<rparr>"

datatype 'p outcome = Served "'p response" | ErrorPage nat "'p page" | DefaultError nat

definition full_dispatch_request ::
  "('r, 'p) osc_api \<Rightarrow> flask_app \<Rightarrow> request \<Rightarrow> ('r, 'p) world \<Rightarrow> 'p outcome \<times> ('r, 'p) world" where
  "full_dispatch_request api a req w =
     (case url_map a (path req) of
        Some f \<Rightarrow> (case call_view api f req w of (pg, w1) \<Rightarrow> (Served (make_response pg), w1))
      | None \<Rightarrow>
          (case error_handler_spec a 404 of
             Some h \<Rightarrow> (case call_handler h 404 w of (pg, w1) \<Rightarrow> (ErrorPage 404 pg, w1))
           | None \<Rightarrow> (DefaultError 404, w)))"

text \<open>The requests of a process are served one after the other, each in the state the last left.\<close>

fun serve ::
  "('r, 'p) osc_api \<Rightarrow> flask_app \<Rightarrow> request list \<Rightarrow> ('r, 'p) world \<Rightarrow> 'p outcome list \<times> ('r, 'p) world" where
  "serve api a [] w = ([], w)"
| "serve api a (req # reqs) w =
     (case full_dispatch_request api a req w of
        (out, w1) \<Rightarrow> (case serve api a reqs w1 of (outs, w2) \<Rightarrow> (out # outs, w2)))"

text \<open>
  A process: the module is loaded (start-up, then the registrations), and only then are
  requests served, by \<open>app.run()\<close> or by the server that imported the module.
\<close>

definition run_process ::
  "('r, 'p) osc_api \<Rightarrow> request list \<Rightarrow> 'p outcome list \<times> ('r, 'p) world" where
  "run_process api reqs = serve api (app module_defs) reqs (startup api)"

text \<open>
  The number of packages a page was given: the length of the list bound to the keyword
  \<open>packages\<close>, when the page has one.
\<close>

definition package_count :: "'p page \<Rightarrow> nat option" where
  "package_count pg =
     (case map_of (params pg) ''packages'' of
        Some (Packages ps) \<Rightarrow> Some (length ps)
      | _ \<Rightarrow> None)"

subsection \<open>An example registry\<close>

text \<open>
  Modelled from the spec: the registry of the example in section 8, which holds the one
  package \<open>{name: "Homebrew Browser", internal: "hbb"}\<close>. Its state is the list of
  loaded packages, empty until \<open>load_packages\<close> fills it; the two read methods leave the
  state as it is, and \<open>package_by_name\<close> finds the first package with the lookup name.
  Its packages are plain objects, which are true.
\<close>

record package =
  display_name :: string
  internal_name :: string

definition catalog :: "package list" where
  "catalog = [\<lparr>display_name = ''Homebrew Browser'', internal_name = ''hbb''\<rparr>]"

definition example_api :: "(package list, package) osc_api" where
  "example_api =
     \<lparr>API = [],
      load_packages = (\<lambda>r. catalog),
      get_packages = (\<lambda>r. (r, r)),
      package_by_name = (\<lambda>name r. (find (\<lambda>p. Some (internal_name p) = name) r, r)),
      package_truth = (\<lambda>p. True)\<rparr>"




section \<open>What each call returns and leaves behind\<close>

lemma fst_render_template: "fst (render_template t kw w) = \<lparr>template = t, params = kw\<rparr>"
  by (simp add: render_template_def Let_def)

lemma snd_render_template:
  "snd (render_template t kw w) =
     w\<lparr>trace := trace w @ [RenderTemplate \<lparr>template = t, params = kw\<rparr>]\<rparr>"
  by (simp add: render_template_def Let_def)

lemma fst_call_get_packages:
  "fst (call_get_packages api w) = fst (get_packages api (OpenShopChannel w))"
  by (simp add: call_get_packages_def split: prod.split)

lemma snd_call_get_packages:
  "snd (call_get_packages api w) =
     w\<lparr>OpenShopChannel := snd (get_packages api (OpenShopChannel w)),
       trace := trace w @ [GetPackages]\<rparr>"
  by (simp add: call_get_packages_def split: prod.split)

lemma fst_call_package_by_name:
  "fst (call_package_by_name api n w) = fst (package_by_name api n (OpenShopChannel w))"
  by (simp add: call_package_by_name_def split: prod.split)

lemma snd_call_package_by_name:
  "snd (call_package_by_name api n w) =
     w\<lparr>OpenShopChannel := snd (package_by_name api n (OpenShopChannel w)),
       trace := trace w @ [PackageByName n]\<rparr>"
  by (simp add: call_package_by_name_def split: prod.split)

lemma startup_eq:
  "startup api =
     \<lparr>OpenShopChannel = load_packages api (API api), trace = [Construct, LoadPackages]\<rparr>"
  by (simp add: startup_def call_load_packages_def Let_def)

subsection \<open>The handlers, call by call\<close>

lemma home_eq:
  "home api req w =
     render_template ''home.html'' [(''packages'', Packages (fst (call_get_packages api w)))]
       (snd (call_get_packages api w))"
  by (simp add: home_def split: prod.split)

lemma apps_eq:
  "apps api req w =
     render_template ''list.html'' [(''packages'', Packages (fst (call_get_packages api w)))]
       (snd (call_get_packages api w))"
  by (simp add: apps_def split: prod.split)

lemma application_eq:
  "application api req w =
     (let name = args_get (args req) ''package'';
          package = fst (call_package_by_name api name w);
          w1 = snd (call_package_by_name api name w)
      in if truthy (package_truth api) package
         then render_template ''app.html'' [(''package'', value_of package)] w1
         else render_template ''error.html''
                [(''code'', Str ''APP-404''), (''description'', Str (app_404_description name))] w1)"
  by (simp add: application_def Let_def split: prod.split)

lemma fst_home:
  "fst (home api req w) =
     \<lparr>template = ''home.html'',
      params = [(''packages'', Packages (fst (get_packages api (OpenShopChannel w))))]\<rparr>"
  by (simp add: home_eq fst_render_template fst_call_get_packages)

lemma fst_apps:
  "fst (apps api req w) =
     \<lparr>template = ''list.html'',
      params = [(''packages'', Packages (fst (get_packages api (OpenShopChannel w))))]\<rparr>"
  by (simp add: apps_eq fst_render_template fst_call_get_packages)

lemma snd_home:
  "snd (home api req w) =
     \<lparr>OpenShopChannel = snd (get_packages api (OpenShopChannel w)),
      trace = trace w @ [GetPackages, RenderTemplate (fst (home api req w))]\<rparr>"
  by (simp add: fst_home)
    (simp add: home_eq snd_render_template snd_call_get_packages fst_call_get_packages)

lemma snd_apps:
  "snd (apps api req w) =
     \<lparr>OpenShopChannel = snd (get_packages api (OpenShopChannel w)),
      trace = trace w @ [GetPackages, RenderTemplate (fst (apps api req w))]\<rparr>"
  by (simp add: fst_apps)
    (simp add: apps_eq snd_render_template snd_call_get_packages fst_call_get_packages)

lemma fst_application:
  "fst (application api req w) =
     (if truthy (package_truth api)
           (fst (package_by_name api (args_get (args req) ''package'') (OpenShopChannel w)))
      then \<lparr>template = ''app.html'',
            params = [(''package'',
                       value_of (fst (package_by_name api (args_get (args req) ''package'')
                                        (OpenShopChannel w))))]\<rparr>
      else \<lparr>template = ''error.html'',
            params = [(''code'', Str ''APP-404''),
                      (''description'',
                       Str (app_404_description (args_get (args req) ''package'')))]\<rparr>)"
  by (simp add: application_eq Let_def fst_render_template fst_call_package_by_name)

lemma fst_welcome_view:
  "fst (welcome_view api req w) = \<lparr>template = ''welcome.html'', params = []\<rparr>"
  by (simp add: welcome_view_def fst_render_template)

lemma snd_welcome_view:
  "snd (welcome_view api req w) =
     w\<lparr>trace := trace w @ [RenderTemplate (fst (welcome_view api req w))]\<rparr>"
  by (simp add: welcome_view_def fst_render_template snd_render_template)

lemma fst_patches:
  "fst (patches api req w) =
     \<lparr>template = ''warning.html'',
      params = [(''code'', Str ''PATCH-WARN''),
                (''description'', Str ''Many patches could damage or brick your system. The Open Shop Channel is not responsbile for any damages to your Wii.'')]\<rparr>"
  by (simp add: patches_def fst_render_template)

lemma snd_patches:
  "snd (patches api req w) = w\<lparr>trace := trace w @ [RenderTemplate (fst (patches api req w))]\<rparr>"
  by (simp add: patches_def fst_render_template snd_render_template)

lemma snd_application:
  "snd (application api req w) =
     \<lparr>OpenShopChannel =
        snd (package_by_name api (args_get (args req) ''package'') (OpenShopChannel w)),
      trace = trace w @ [PackageByName (args_get (args req) ''package''),
                         RenderTemplate (fst (application api req w))]\<rparr>"
  by (simp add: application_eq Let_def fst_render_template snd_render_template
      snd_call_package_by_name)

lemma fst_page_not_found_l43:
  "fst (page_not_found_l43 e w) =
     \<lparr>template = ''error.html'',
      params = [(''code'', Str ''HTTP-404''),
                (''description'',
                 Str ''Page could not be found. This is not where the shop is :('')]\<rparr>"
  by (simp add: page_not_found_l43_def fst_render_template)

lemma snd_page_not_found_l43:
  "snd (page_not_found_l43 e w) =
     w\<lparr>trace := trace w @ [RenderTemplate (fst (page_not_found_l43 e w))]\<rparr>"
  by (simp add: page_not_found_l43_def fst_render_template snd_render_template)

lemma fst_page_not_found_l49:
  "fst (page_not_found_l49 e w) =
     \<lparr>template = ''error.html'',
      params = [(''code'', Str ''HTTP-500''),
                (''description'',
                 Str ''Something went wrong on the shop's server. Please report this event!'')]\<rparr>"
  by (simp add: page_not_found_l49_def fst_render_template)

lemma snd_page_not_found_l49:
  "snd (page_not_found_l49 e w) =
     w\<lparr>trace := trace w @ [RenderTemplate (fst (page_not_found_l49 e w))]\<rparr>"
  by (simp add: page_not_found_l49_def fst_render_template snd_render_template)

subsection \<open>The registry a call leaves behind\<close>

lemma registry_call_view:
  "OpenShopChannel (snd (call_view api f req w)) =
     (case f of
        Fn_welcome \<Rightarrow> OpenShopChannel w
      | Fn_patches \<Rightarrow> OpenShopChannel w
      | Fn_home \<Rightarrow> snd (get_packages api (OpenShopChannel w))
      | Fn_apps \<Rightarrow> snd (get_packages api (OpenShopChannel w))
      | Fn_application \<Rightarrow>
          snd (package_by_name api (args_get (args req) ''package'') (OpenShopChannel w)))"
  by (cases f) (simp_all add: snd_welcome_view snd_home snd_apps snd_patches snd_application)

lemma registry_call_handler: "OpenShopChannel (snd (call_handler h e w)) = OpenShopChannel w"
  by (cases h) (simp_all add: snd_page_not_found_l43 snd_page_not_found_l49)

subsection \<open>The events a call adds to the trace\<close>

lemma call_view_trace:
  "\<exists>evs. trace (snd (call_view api f req w)) = trace w @ evs \<and> list_all is_request_event evs"
  by (cases f) (simp_all add: snd_welcome_view snd_home snd_apps snd_patches snd_application)

lemma call_handler_trace:
  "\<exists>evs. trace (snd (call_handler h e w)) = trace w @ evs \<and> list_all is_request_event evs"
  by (cases h) (simp_all add: snd_page_not_found_l43 snd_page_not_found_l49)

subsection \<open>The handler of \<open>/app\<close> when the lookup returns, and when it raises\<close>


lemma application_exc_raises:
  "lookup (args_get (args req) ''package'') (OpenShopChannel w) = (Inl e, r) \<Longrightarrow>
   application_exc truth lookup req w =
     (Inl e, w\<lparr>OpenShopChannel := r,
                trace := trace w @ [PackageByName (args_get (args req) ''package'')]\<rparr>)"
  by (simp add: application_exc_def Let_def)

lemma application_exc_returning:
  "application_exc (package_truth api) (returning api) req w =
     (Inr (fst (application api req w)), snd (application api req w))"
  by (simp add: application_exc_def returning_def application_def call_package_by_name_def
      Let_def case_prod_beta)

subsection \<open>Occurrence of one string in another\<close>






subsection \<open>The rules of the application\<close>

lemma url_map_app:
  "url_map (app module_defs) ''/'' = Some Fn_welcome"
  "url_map (app module_defs) ''/home'' = Some Fn_home"
  "url_map (app module_defs) ''/apps'' = Some Fn_apps"
  "url_map (app module_defs) ''/patches'' = Some Fn_patches"
  "url_map (app module_defs) ''/app'' = Some Fn_application"
  by (simp_all add: module_defs_def def_route_def def_errorhandler_def route_def
      errorhandler_def Flask_def Let_def)

lemma url_map_app_cases:
  "url_map (app module_defs) p =
     (if p = ''/app'' then Some Fn_application
      else if p = ''/patches'' then Some Fn_patches
      else if p = ''/apps'' then Some Fn_apps
      else if p = ''/home'' then Some Fn_home
      else if p = ''/'' then Some Fn_welcome
      else None)"
  by (simp add: module_defs_def def_route_def def_errorhandler_def route_def
      errorhandler_def Flask_def Let_def)

lemma error_handler_spec_app:
  "error_handler_spec (app module_defs) 404 = Some Fn_page_not_found_l43"
  "error_handler_spec (app module_defs) 500 = Some Fn_page_not_found_l49"
  by (simp_all add: module_defs_def def_route_def def_errorhandler_def route_def
      errorhandler_def Flask_def Let_def)

lemma full_dispatch_view:
  "url_map a (path req) = Some f \<Longrightarrow>
   full_dispatch_request api a req w =
     (Served (make_response (fst (call_view api f req w))), snd (call_view api f req w))"
  by (simp add: full_dispatch_request_def case_prod_beta)

lemma full_dispatch_trace:
  "\<exists>evs. trace (snd (full_dispatch_request api a req w)) = trace w @ evs
         \<and> list_all is_request_event evs"
proof (cases "url_map a (path req)")
  case (Some f)
  then show ?thesis
    using call_view_trace [of api f req w] by (simp add: full_dispatch_view)
next
  case None
  show ?thesis
  proof (cases "error_handler_spec a 404")
    case None
    with \<open>url_map a (path req) = None\<close> show ?thesis
      by (simp add: full_dispatch_request_def)
  next
    case (Some h)
    with \<open>url_map a (path req) = None\<close> show ?thesis
      using call_handler_trace [of h 404 w]
      by (simp add: full_dispatch_request_def case_prod_beta)
  qed
qed

lemma registry_full_dispatch:
  assumes "\<forall>r. snd (get_packages api r) = r"
    and "\<forall>name r. snd (package_by_name api name r) = r"
  shows "OpenShopChannel (snd (full_dispatch_request api a req w)) = OpenShopChannel w"
  using assms
  by (simp add: full_dispatch_request_def case_prod_beta registry_call_view
      registry_call_handler split: option.split view_fn.split)

subsection \<open>A sequence of requests\<close>

lemma snd_serve_Cons:
  "snd (serve api a (req # reqs) w) =
     snd (serve api a reqs (snd (full_dispatch_request api a req w)))"
  by (simp add: case_prod_beta)

lemma serve_trace:
  "\<exists>evs. trace (snd (serve api a reqs w)) = trace w @ evs \<and> list_all is_request_event evs"
proof (induction reqs arbitrary: w)
  case Nil
  show ?case by simp
next
  case (Cons req reqs)
  obtain evs1 where e1: "trace (snd (full_dispatch_request api a req w)) = trace w @ evs1"
    and l1: "list_all is_request_event evs1"
    using full_dispatch_trace [of api a req w] by blast
  obtain evs2 where
    e2: "trace (snd (serve api a reqs (snd (full_dispatch_request api a req w)))) =
           trace (snd (full_dispatch_request api a req w)) @ evs2"
    and l2: "list_all is_request_event evs2"
    using Cons.IH [of "snd (full_dispatch_request api a req w)"] by blast
  have "trace (snd (serve api a (req # reqs) w)) = trace w @ (evs1 @ evs2)"
    by (simp only: snd_serve_Cons e2 e1 append_assoc)
  moreover have "list_all is_request_event (evs1 @ evs2)"
    using l1 l2 by simp
  ultimately show ?case by blast
qed

lemma registry_serve:
  assumes "\<forall>r. snd (get_packages api r) = r"
    and "\<forall>name r. snd (package_by_name api name r) = r"
  shows "OpenShopChannel (snd (serve api a reqs w)) = OpenShopChannel w"
proof (induction reqs arbitrary: w)
  case Nil
  show ?case by simp
next
  case (Cons req reqs)
  show ?case
    by (simp only: snd_serve_Cons Cons.IH registry_full_dispatch [OF assms])
qed

lemma app_route_runs_application_exc:
  "application_exc (package_truth api) (returning api) \<lparr>path = ''/app'', args = q\<rparr> w =
     (Inr pg, w1) \<Longrightarrow>
   full_dispatch_request api (app module_defs) \<lparr>path = ''/app'', args = q\<rparr> w =
     (Served (make_response pg), w1)"
  by (simp add: application_exc_returning full_dispatch_view url_map_app)

section \<open>The routes\<close>





text \<open>
  Claim C3. Every request \<open>GET /patches\<close>, whatever its query parameters, the registry
  and the state it arrives in, is answered with status 200 and the template
  \<open>warning.html\<close> rendered with exactly two parameters: the code \<open>PATCH-WARN\<close> and the
  fixed disclaimer as description.
\<close>

theorem patches_route_fixed_warning:
  "fst (full_dispatch_request api (app module_defs) \<lparr>path = ''/patches'', args = q\<rparr> w) =
     Served \<lparr>status = 200,
             body = \<lparr>template = ''warning.html'',
                     params = [(''code'', Str ''PATCH-WARN''),
                               (''description'', Str ''Many patches could damage or brick your system. The Open Shop Channel is not responsbile for any damages to your Wii.'')]\<rparr>\<rparr>"
  by (simp add: full_dispatch_view url_map_app patches_def fst_render_template
      make_response_def)

text \<open>
  Claim C4. \<open>GET /home\<close> and \<open>GET /apps\<close> each call \<open>get_packages\<close> while the request is
  handled, on the registry as it is then, and hand the list it returns to the renderer
  as it is, under the keyword \<open>packages\<close>. The number of packages of the rendered page is
  therefore the number the registry returned, and the status is 200.
\<close>

theorem home_and_apps_list_registry:
  "fst (full_dispatch_request api (app module_defs) \<lparr>path = ''/home'', args = q\<rparr> w) =
     Served \<lparr>status = 200,
             body = \<lparr>template = ''home.html'',
                     params = [(''packages'',
                                Packages (fst (get_packages api (OpenShopChannel w))))]\<rparr>\<rparr>
   \<and> fst (full_dispatch_request api (app module_defs) \<lparr>path = ''/apps'', args = q\<rparr> w) =
     Served \<lparr>status = 200,
             body = \<lparr>template = ''list.html'',
                     params = [(''packages'',
                                Packages (fst (get_packages api (OpenShopChannel w))))]\<rparr>\<rparr>
   \<and> package_count (fst (home api req w)) =
       Some (length (fst (get_packages api (OpenShopChannel w))))
   \<and> package_count (fst (apps api req w)) =
       Some (length (fst (get_packages api (OpenShopChannel w))))
   \<and> trace (snd (home api req w)) =
       trace w @ [GetPackages, RenderTemplate (fst (home api req w))]
   \<and> trace (snd (apps api req w)) =
       trace w @ [GetPackages, RenderTemplate (fst (apps api req w))]"
  by (simp add: full_dispatch_view url_map_app fst_home fst_apps snd_home snd_apps
      make_response_def package_count_def)

text \<open>
  Claim C10. The handlers of \<open>/home\<close> and \<open>/apps\<close> give the renderer the same data: one
  keyword, \<open>packages\<close>, bound to what \<open>get_packages\<close> returns on the registry as it is.
  They differ in the template only, \<open>home.html\<close> against \<open>list.html\<close>, and leave the same
  registry behind.
\<close>

theorem home_and_apps_same_parameters:
  "params (fst (home api req w)) =
     [(''packages'', Packages (fst (get_packages api (OpenShopChannel w))))]
   \<and> params (fst (apps api req w)) = params (fst (home api req w))
   \<and> template (fst (home api req w)) = ''home.html''
   \<and> template (fst (apps api req w)) = ''list.html''
   \<and> fst (apps api req w) = (fst (home api req w))\<lparr>template := ''list.html''\<rparr>
   \<and> OpenShopChannel (snd (apps api req w)) = OpenShopChannel (snd (home api req w))
   \<and> url_map (app module_defs) ''/home'' = Some Fn_home
   \<and> url_map (app module_defs) ''/apps'' = Some Fn_apps"
  by (simp add: fst_home fst_apps snd_home snd_apps url_map_app)

text \<open>
  Claim C7. The application has five rules, one for each of \<open>/\<close>, \<open>/home\<close>, \<open>/apps\<close>,
  \<open>/patches\<close> and \<open>/app\<close>. What a view adds to the trace is, for \<open>/\<close> and \<open>/patches\<close>, one
  render call and no registry call; for \<open>/home\<close> and \<open>/apps\<close>, one \<open>get_packages\<close> and then
  one render call; for \<open>/app\<close>, one \<open>package_by_name\<close> on the value of the parameter and
  then one render call. In each case the page the view returns is the page of that one
  render call.
\<close>

theorem one_render_at_most_one_registry_call:
  "url_map (app module_defs) p =
     (if p = ''/app'' then Some Fn_application
      else if p = ''/patches'' then Some Fn_patches
      else if p = ''/apps'' then Some Fn_apps
      else if p = ''/home'' then Some Fn_home
      else if p = ''/'' then Some Fn_welcome
      else None)
   \<and> trace (snd (call_view api Fn_welcome req w)) =
       trace w @ [RenderTemplate (fst (call_view api Fn_welcome req w))]
   \<and> trace (snd (call_view api Fn_patches req w)) =
       trace w @ [RenderTemplate (fst (call_view api Fn_patches req w))]
   \<and> trace (snd (call_view api Fn_home req w)) =
       trace w @ [GetPackages, RenderTemplate (fst (call_view api Fn_home req w))]
   \<and> trace (snd (call_view api Fn_apps req w)) =
       trace w @ [GetPackages, RenderTemplate (fst (call_view api Fn_apps req w))]
   \<and> trace (snd (call_view api Fn_application req w)) =
       trace w @ [PackageByName (args_get (args req) ''package''),
                  RenderTemplate (fst (call_view api Fn_application req w))]"
  by (simp add: url_map_app_cases snd_welcome_view snd_patches snd_home snd_apps
      snd_application)

section \<open>The error handlers\<close>

text \<open>
  Claim C5. After the module has run, the status code 404 is bound to the function
  defined at line 43 and 500 to the function defined at line 49, although the name
  \<open>page_not_found\<close> is by then bound to the second one alone. Whatever error and state it
  is called with, each makes one render call and returns its page: \<open>error.html\<close> with the
  code \<open>HTTP-404\<close>, respectively \<open>HTTP-500\<close>, and its fixed description. A request whose
  path has no rule gets the page of the first.
\<close>

theorem error_handlers_bound_by_code:
  "error_handler_spec (app module_defs) 404 = Some Fn_page_not_found_l43
   \<and> error_handler_spec (app module_defs) 500 = Some Fn_page_not_found_l49
   \<and> globals module_defs ''page_not_found'' = Some (Handler Fn_page_not_found_l49)
   \<and> fst (call_handler Fn_page_not_found_l43 e w) =
       \<lparr>template = ''error.html'',
        params = [(''code'', Str ''HTTP-404''),
                  (''description'',
                   Str ''Page could not be found. This is not where the shop is :('')]\<rparr>
   \<and> fst (call_handler Fn_page_not_found_l49 e w) =
       \<lparr>template = ''error.html'',
        params = [(''code'', Str ''HTTP-500''),
                  (''description'',
                   Str ''Something went wrong on the shop's server. Please report this event!'')]\<rparr>
   \<and> snd (call_handler Fn_page_not_found_l43 e w) =
       w\<lparr>trace := trace w @ [RenderTemplate (fst (call_handler Fn_page_not_found_l43 e w))]\<rparr>
   \<and> snd (call_handler Fn_page_not_found_l49 e w) =
       w\<lparr>trace := trace w @ [RenderTemplate (fst (call_handler Fn_page_not_found_l49 e w))]\<rparr>
   \<and> fst (full_dispatch_request api (app module_defs) \<lparr>path = p, args = q\<rparr> w) =
       (case url_map (app module_defs) p of
          Some f \<Rightarrow> Served (make_response (fst (call_view api f \<lparr>path = p, args = q\<rparr> w)))
        | None \<Rightarrow> ErrorPage 404 (fst (call_handler Fn_page_not_found_l43 404 w)))"
proof -
  have g: "globals module_defs ''page_not_found'' = Some (Handler Fn_page_not_found_l49)"
    by (simp add: module_defs_def def_route_def def_errorhandler_def Let_def)
  have f43: "fst (call_handler Fn_page_not_found_l43 e w) =
       \<lparr>template = ''error.html'',
        params = [(''code'', Str ''HTTP-404''),
                  (''description'',
                   Str ''Page could not be found. This is not where the shop is :('')]\<rparr>"
    by (simp add: fst_page_not_found_l43)
  have f49: "fst (call_handler Fn_page_not_found_l49 e w) =
       \<lparr>template = ''error.html'',
        params = [(''code'', Str ''HTTP-500''),
                  (''description'',
                   Str ''Something went wrong on the shop's server. Please report this event!'')]\<rparr>"
    by (simp add: fst_page_not_found_l49)
  have s43: "snd (call_handler Fn_page_not_found_l43 e w) =
       w\<lparr>trace := trace w @ [RenderTemplate (fst (call_handler Fn_page_not_found_l43 e w))]\<rparr>"
    using snd_page_not_found_l43 [of e w] by simp
  have s49: "snd (call_handler Fn_page_not_found_l49 e w) =
       w\<lparr>trace := trace w @ [RenderTemplate (fst (call_handler Fn_page_not_found_l49 e w))]\<rparr>"
    using snd_page_not_found_l49 [of e w] by simp
  have d: "fst (full_dispatch_request api (app module_defs) \<lparr>path = p, args = q\<rparr> w) =
       (case url_map (app module_defs) p of
          Some f \<Rightarrow> Served (make_response (fst (call_view api f \<lparr>path = p, args = q\<rparr> w)))
        | None \<Rightarrow> ErrorPage 404 (fst (call_handler Fn_page_not_found_l43 404 w)))"
    by (simp add: full_dispatch_request_def error_handler_spec_app case_prod_beta
        split: option.split)
  show ?thesis
    using g f43 f49 s43 s49 d by (simp only: error_handler_spec_app simp_thms)
qed

section \<open>The registry over the life of the process\<close>

text \<open>
  Claim C6. Loading the module constructs the registry and calls \<open>load_packages\<close> on it,
  with no condition, before anything else; requests are served in the state this leaves.
  So the trace of a process that serves any sequence of requests starts with the
  construction and the load, and every later event is a read of the registry or a render
  call: the load happens once, and ahead of every handler.
\<close>

theorem registry_loaded_once_before_requests:
  "startup api =
     \<lparr>OpenShopChannel = load_packages api (API api), trace = [Construct, LoadPackages]\<rparr>
   \<and> run_process api [] = ([], startup api)
   \<and> (\<exists>evs. trace (snd (run_process api reqs)) = Construct # LoadPackages # evs
            \<and> list_all is_request_event evs)
   \<and> count_list (trace (snd (run_process api reqs))) LoadPackages = 1
   \<and> count_list (trace (snd (run_process api reqs))) Construct = 1"
proof -
  obtain evs where e: "trace (snd (run_process api reqs)) = Construct # LoadPackages # evs"
    and l: "list_all is_request_event evs"
    using serve_trace [of api "app module_defs" reqs "startup api"]
    by (auto simp: run_process_def startup_eq)
  have c: "count_list evs LoadPackages = 0 \<and> count_list evs Construct = 0"
    using l by (induction evs) auto
  show ?thesis
    using e l c by (simp add: startup_eq run_process_def)
qed

text \<open>
  Claim C8. No handler calls anything of the registry but its two read methods. When
  these leave the registry as they find it, so does every view, every error handler and
  every dispatched request, and after any sequence of requests the registry is the one
  that start-up left.
\<close>

theorem handlers_leave_registry_unchanged:
  assumes "\<forall>r. snd (get_packages api r) = r"
    and "\<forall>name r. snd (package_by_name api name r) = r"
  shows "OpenShopChannel (snd (call_view api f req w)) = OpenShopChannel w
   \<and> OpenShopChannel (snd (call_handler h e w)) = OpenShopChannel w
   \<and> OpenShopChannel (snd (full_dispatch_request api a req w)) = OpenShopChannel w
   \<and> OpenShopChannel (snd (run_process api reqs)) = OpenShopChannel (startup api)
   \<and> (\<exists>evs. trace (snd (call_view api f req w)) = trace w @ evs
            \<and> list_all is_request_event evs)"
  using assms call_view_trace [of api f req w]
  by (simp add: registry_call_view registry_call_handler registry_full_dispatch [OF assms]
      registry_serve [OF assms] run_process_def split: view_fn.split)

theorem handlers_leave_registry_unchanged_witness:
  "(\<forall>r. snd (get_packages example_api r) = r)
   \<and> (\<forall>name r. snd (package_by_name example_api name r) = r)
   \<and> OpenShopChannel (snd (call_view example_api Fn_application
        \<lparr>path = ''/app'', args = [(''package'', ''hbb'')]\<rparr> (startup example_api))) = catalog
   \<and> OpenShopChannel (snd (run_process example_api
        [\<lparr>path = ''/home'', args = []\<rparr>, \<lparr>path = ''/app'', args = [(''package'', ''hbb'')]\<rparr>,
         \<lparr>path = ''/nowhere'', args = []\<rparr>])) = catalog"
proof -
  have h1: "\<forall>r. snd (get_packages example_api r) = r"
    by (simp add: example_api_def)
  have h2: "\<forall>name r. snd (package_by_name example_api name r) = r"
    by (simp add: example_api_def)
  have s: "OpenShopChannel (startup example_api) = catalog"
    by (simp add: startup_eq example_api_def)
  show ?thesis
    using h1 h2 s
      handlers_leave_registry_unchanged [OF h1 h2, of Fn_application
        "\<lparr>path = ''/app'', args = [(''package'', ''hbb'')]\<rparr>" "startup example_api"
        Fn_page_not_found_l43 404 "app module_defs"
        "[\<lparr>path = ''/home'', args = []\<rparr>, \<lparr>path = ''/app'', args = [(''package'', ''hbb'')]\<rparr>,
         \<lparr>path = ''/nowhere'', args = []\<rparr>]"]
    by simp
qed

section \<open>What a response depends on\<close>

text \<open>
  Claim C9. For one registry state, the page of a request, and the registry it leaves,
  depend on the path and on the value of the \<open>package\<close> parameter only: two requests that
  agree on both get the same template with the same parameters, whatever else their
  query strings hold. The pages of \<open>/\<close>, of \<open>/patches\<close> and of the two error handlers
  depend on nothing: not on the request, the error, the registry or the state.
\<close>

theorem handlers_determined_by_route_and_package:
  assumes "path r1 = path r2"
    and "args_get (args r1) ''package'' = args_get (args r2) ''package''"
    and "OpenShopChannel w1 = OpenShopChannel w2"
  shows "fst (full_dispatch_request api (app module_defs) r1 w1) =
           fst (full_dispatch_request api (app module_defs) r2 w2)
   \<and> OpenShopChannel (snd (full_dispatch_request api (app module_defs) r1 w1)) =
       OpenShopChannel (snd (full_dispatch_request api (app module_defs) r2 w2))
   \<and> fst (welcome_view api r3 w3) = fst (welcome_view api4 r4 w4)
   \<and> fst (patches api r3 w3) = fst (patches api4 r4 w4)
   \<and> fst (call_handler h e3 w3) = fst (call_handler h e4 w4)"
proof -
  have v: "fst (call_view api f r1 w1) = fst (call_view api f r2 w2)" for f
    using assms
    by (cases f)
      (simp_all add: fst_welcome_view fst_home fst_apps fst_patches fst_application
        split: option.split)
  have r: "OpenShopChannel (snd (call_view api f r1 w1)) =
           OpenShopChannel (snd (call_view api f r2 w2))" for f
    using assms by (simp add: registry_call_view split: view_fn.split)
  have hd: "fst (call_handler h' e w1) = fst (call_handler h' e' w2)" for h' e e'
    by (cases h') (simp_all add: fst_page_not_found_l43 fst_page_not_found_l49)
  have d1: "fst (full_dispatch_request api (app module_defs) r1 w1) =
           fst (full_dispatch_request api (app module_defs) r2 w2)"
    using v hd [of _ 404 404]
    by (simp add: full_dispatch_request_def case_prod_beta assms(1) split: option.split)
  have d2: "OpenShopChannel (snd (full_dispatch_request api (app module_defs) r1 w1)) =
       OpenShopChannel (snd (full_dispatch_request api (app module_defs) r2 w2))"
    using r assms(3)
    by (simp add: full_dispatch_request_def case_prod_beta assms(1) registry_call_handler
        split: option.split)
  have w: "fst (welcome_view api r3 w3) = fst (welcome_view api4 r4 w4)"
    by (simp add: fst_welcome_view)
  have p: "fst (patches api r3 w3) = fst (patches api4 r4 w4)"
    by (simp add: fst_patches)
  have h: "fst (call_handler h e3 w3) = fst (call_handler h e4 w4)"
    by (cases h) (simp_all add: fst_page_not_found_l43 fst_page_not_found_l49)
  show ?thesis
    using d1 d2 w p h by (simp only: simp_thms)
qed

theorem handlers_determined_by_route_and_package_witness:
  "path \<lparr>path = ''/app'', args = [(''package'', ''hbb'')]\<rparr> =
     path \<lparr>path = ''/app'', args = [(''ref'', ''x''), (''package'', ''hbb''), (''package'', ''zz'')]\<rparr>
   \<and> args_get (args \<lparr>path = ''/app'', args = [(''package'', ''hbb'')]\<rparr>) ''package'' =
       args_get (args \<lparr>path = ''/app'',
                       args = [(''ref'', ''x''), (''package'', ''hbb''), (''package'', ''zz'')]\<rparr>)
         ''package''
   \<and> OpenShopChannel (startup example_api) =
       OpenShopChannel (snd (home example_api \<lparr>path = ''/home'', args = []\<rparr> (startup example_api)))
   \<and> fst (full_dispatch_request example_api (app module_defs)
            \<lparr>path = ''/app'', args = [(''package'', ''hbb'')]\<rparr> (startup example_api)) =
       fst (full_dispatch_request example_api (app module_defs)
            \<lparr>path = ''/app'', args = [(''ref'', ''x''), (''package'', ''hbb''), (''package'', ''zz'')]\<rparr>
            (snd (home example_api \<lparr>path = ''/home'', args = []\<rparr> (startup example_api))))"
proof -
  have h1: "path \<lparr>path = ''/app'', args = [(''package'', ''hbb'')]\<rparr> =
     path \<lparr>path = ''/app'', args = [(''ref'', ''x''), (''package'', ''hbb''), (''package'', ''zz'')]\<rparr>"
    by simp
  have h2: "args_get (args \<lparr>path = ''/app'', args = [(''package'', ''hbb'')]\<rparr>) ''package'' =
       args_get (args \<lparr>path = ''/app'',
                       args = [(''ref'', ''x''), (''package'', ''hbb''), (''package'', ''zz'')]\<rparr>)
         ''package''"
    by simp
  have h3: "OpenShopChannel (startup example_api) =
       OpenShopChannel (snd (home example_api \<lparr>path = ''/home'', args = []\<rparr> (startup example_api)))"
    by (simp add: snd_home startup_eq example_api_def)
  note c = handlers_determined_by_route_and_package
    [OF h1 h2 h3, of example_api, THEN conjunct1]
  show ?thesis
    by (rule conjI [OF h1 conjI [OF h2 conjI [OF h3 c]]])
qed

section \<open>The example of section 8\<close>

text \<open>
  With the registry that holds \<open>hbb\<close>, a process that serves \<open>GET /app?package=hbb\<close> and
  then \<open>GET /app?package=nonexistent\<close> answers the first with the detail page of Homebrew
  Browser and the second with the error page that names \<open>nonexistent\<close>.
\<close>

lemma example_of_section_8:
  \<open>fst (run_process example_api
          [\<lparr>path = ''/app'', args = [(''package'', ''hbb'')]\<rparr>,
           \<lparr>path = ''/app'', args = [(''package'', ''nonexistent'')]\<rparr>]) =
     [Served \<lparr>status = 200,
              body = \<lparr>template = ''app.html'',
                      params = [(''package'',
                                 Package \<lparr>display_name = ''Homebrew Browser'',
                                          internal_name = ''hbb''\<rparr>)]\<rparr>\<rparr>,
      Served \<lparr>status = 200,
              body = \<lparr>template = ''error.html'',
                      params = [(''code'', Str ''APP-404''),
                                (''description'',
                                 Str ''The app "nonexistent" (Internal Name) could not be found.'')]\<rparr>\<rparr>]\<close>
  by (simp add: run_process_def full_dispatch_view url_map_app fst_application
      snd_application startup_eq example_api_def catalog_def make_response_def
      app_404_description_def py_str_def case_prod_beta)

end
